theory Spec2Isabelle
  imports Complex_Main "HOL-Library.Sublist"
begin

section \<open>Errors\<close>

text \<open>
  The exceptions that end a run of \<^verbatim>\<open>lopocs/cli.py\<close>.  \<open>SystemExit\<close> is what
  \<^verbatim>\<open>fatal\<close> raises through \<^verbatim>\<open>sys.exit(1)\<close>; \<open>ValueError\<close> is the failed tuple
  unpacking of \<^verbatim>\<open>schema, tab = table.split('.')\<close>; \<open>FileNotFoundError\<close> is
  \<^verbatim>\<open>open(epsg)\<close> on a missing file; \<open>KeyError\<close> is \<^verbatim>\<open>str.format\<close> on a field that
  is not bound.  \<open>ConfigError\<close> is the error class the specification names; no
  statement of the source raises it.
\<close>

datatype error =
    SystemExit int
  | ValueError
  | FileNotFoundError
  | KeyError
  | ConfigError

section \<open>The SRID resolver: \<^verbatim>\<open>proj42epsg\<close>\<close>

subsection \<open>The GDAL spatial reference object\<close>

text \<open>
  \<^verbatim>\<open>osgeo.osr.SpatialReference\<close> is a library object.  The resolver only observes
  it through seven calls, so the object is the record of their answers after
  \<^verbatim>\<open>p_in.ImportFromProj4(proj4)\<close>: the status that call returned, and what the
  other six methods return afterwards.  The library itself is a function from the
  projection string to that record.
\<close>

record spatial_reference =
  ImportFromProj4 :: int
  IsLocal :: int
  IsGeographic :: int
  GetAuthorityName :: "string \<Rightarrow> string option"
  GetAuthorityCode :: "string \<Rightarrow> string option"
  ExportToWkt :: string
  ExportToProj4 :: string

type_synonym osr = "string \<Rightarrow> spatial_reference"

text \<open>A file system for \<^verbatim>\<open>open(epsg)\<close>: the lines of each file that exists.\<close>

type_synonym files = "string \<Rightarrow> string list option"

subsection \<open>String search\<close>

text \<open>
  \<^verbatim>\<open>line.find(p_out)\<close>: the lowest index at which the substring starts, or \<open>-1\<close>.
\<close>

fun find_from :: "string \<Rightarrow> string \<Rightarrow> int \<Rightarrow> int" where
  "find_from [] sub i = (if sub = [] then i else - 1)"
| "find_from (c # cs) sub i = (if prefix sub (c # cs) then i else find_from cs sub (i + 1))"

definition str_find :: "string \<Rightarrow> string \<Rightarrow> int" where
  "str_find s sub = find_from s sub 0"

text \<open>
  \<^verbatim>\<open>re.search('<(\\d+)>', line)\<close> and its \<^verbatim>\<open>group(1)\<close>.  At a position the pattern
  matches when a \<open><\<close> is followed by a non-empty run of digits and a \<open>>\<close>; the
  greedy \<^verbatim>\<open>\d+\<close> takes the whole run, and giving digits back cannot help, since the
  character after a shorter run is a digit.  The search returns the leftmost match.
  Characters are code points below 256, where \<^verbatim>\<open>\d\<close> is \<open>0\<close> to \<open>9\<close>.
\<close>

definition isdigit :: "char \<Rightarrow> bool" where
  "isdigit c = (c \<in> set ''0123456789'')"

definition re_match :: "string \<Rightarrow> string option" where
  "re_match s =
     (case s of
        [] \<Rightarrow> None
      | c # r \<Rightarrow>
          if c = CHR ''<'' then
            (case dropWhile isdigit r of
               [] \<Rightarrow> None
             | g # _ \<Rightarrow> if takeWhile isdigit r \<noteq> [] \<and> g = CHR ''>''
                       then Some (takeWhile isdigit r) else None)
          else None)"

fun re_search :: "string \<Rightarrow> string option" where
  "re_search [] = None"
| "re_search (c # cs) =
     (case re_match (c # cs) of Some g \<Rightarrow> Some g | None \<Rightarrow> re_search cs)"

subsection \<open>The scan of the EPSG definitions file\<close>

text \<open>
  \<^verbatim>\<open>
  for line in f:
      if line.find(p_out) != -1:
          m = re.search('<(\\d+)>', line)
          if m:
              code = m.group(1)
              break
  \<close>
  The loop returns the value of \<^verbatim>\<open>code\<close> when it ends.
\<close>

fun scan_epsg :: "string list \<Rightarrow> string \<Rightarrow> string \<Rightarrow> string" where
  "scan_epsg [] p_out code = code"
| "scan_epsg (line # f) p_out code =
     (if str_find line p_out \<noteq> - 1 then
        (case re_search line of
           Some g \<Rightarrow> g
         | None \<Rightarrow> scan_epsg f p_out code)
      else scan_epsg f p_out code)"

subsection \<open>The resolver\<close>

text \<open>
  \<^verbatim>\<open>proj42epsg(proj4, epsg='/usr/share/proj/epsg', forceProj4=False)\<close>.  The result
  is the list of files the call opened, and the string it returned or the exception
  it raised.  \<^verbatim>\<open>'%s' % code\<close> on a string is that string.  The fast path calls
  \<^verbatim>\<open>GetAuthorityCode\<close> a second time for the value it returns.
\<close>

definition proj42epsg ::
  "osr \<Rightarrow> files \<Rightarrow> string \<Rightarrow> string \<Rightarrow> bool \<Rightarrow> string list \<times> (error + string)" where
  "proj42epsg lib fs proj4 epsg forceProj4 =
     (let code = ''4326'';
          p_in = lib proj4;
          s = ImportFromProj4 p_in
      in
      if s = 5 then ([], Inr code)
      else if IsLocal p_in = 1 then ([], Inr (ExportToWkt p_in))
      else
        let cstype = (if IsGeographic p_in = 1 then ''GEOGCS'' else ''PROJCS'');
            an = GetAuthorityName p_in cstype;
            ac = GetAuthorityCode p_in cstype
        in
        if an \<noteq> None \<and> ac \<noteq> None then
          (case GetAuthorityCode p_in cstype of
             Some c \<Rightarrow> ([], Inr c)
           | None \<Rightarrow> ([], Inr ''None''))
        else
          let p_out = ExportToProj4 p_in in
          if p_out \<noteq> [] then
            if forceProj4 then ([], Inr p_out)
            else
              (case fs epsg of
                 None \<Rightarrow> ([epsg], Inl FileNotFoundError)
               | Some f \<Rightarrow> ([epsg], Inr (scan_epsg f p_out code)))
          else ([], Inr code))"

text \<open>
  A small instance for evaluation: a library that knows a few projection strings, and
  a definitions file of three lines.
\<close>

definition sample_reference :: spatial_reference where
  "sample_reference =
     \<lparr> ImportFromProj4 = 0, IsLocal = 0, IsGeographic = 0,
       GetAuthorityName = (\<lambda>_. None), GetAuthorityCode = (\<lambda>_. None),
       ExportToWkt = ''PROJCS[]'', ExportToProj4 = ''+proj=lcc +lat_1=46.8'' \<rparr>"

definition sample_osr :: osr where
  "sample_osr proj4 =
     (if proj4 = ''garbage'' then sample_reference \<lparr> ImportFromProj4 := 5 \<rparr>
      else if proj4 = ''+proj=local'' then
        sample_reference \<lparr> IsLocal := 1, ExportToWkt := ''LOCAL_CS[x]'' \<rparr>
      else if proj4 = ''+init=epsg:2154'' then
        sample_reference
          \<lparr> GetAuthorityName := (\<lambda>c. if c = ''PROJCS'' then Some ''EPSG'' else None),
            GetAuthorityCode := (\<lambda>c. if c = ''PROJCS'' then Some ''2154'' else None) \<rparr>
      else if proj4 = ''+proj=none'' then sample_reference \<lparr> ExportToProj4 := [] \<rparr>
      else if proj4 = ''+proj=utm'' then sample_reference \<lparr> ExportToProj4 := ''+proj=utm +zone=31'' \<rparr>
      else sample_reference)"

definition sample_files :: files where
  "sample_files path =
     (if path = ''/usr/share/proj/epsg'' then
        Some [''# NTF (Paris) / Lambert zone II'',
              ''<27572> +proj=lcc +lat_1=46.8 +lat_0=46.8 <>'',
              ''<27582> +proj=lcc +lat_1=46.8 +lat_0=46.8 <>'']
      else None)"

section \<open>Strings, as the ingestion driver uses them\<close>

text \<open>\<^verbatim>\<open>table.split('.')\<close>: the pieces between the separators, one more than there are separators.\<close>

fun split :: "char \<Rightarrow> string \<Rightarrow> string list" where
  "split sep [] = [[]]"
| "split sep (c # cs) =
     (if c = sep then [] # split sep cs
      else (case split sep cs of
              [] \<Rightarrow> [[c]]
            | p # ps \<Rightarrow> (c # p) # ps))"

text \<open>\<^verbatim>\<open>'_'.join(...)\<close>.\<close>

fun join :: "string \<Rightarrow> string list \<Rightarrow> string" where
  "join sep [] = []"
| "join sep [x] = x"
| "join sep (x # y # ys) = x @ sep @ join sep (y # ys)"

text \<open>
  \<^verbatim>\<open>str.lower()\<close> on code points below 256: the letters \<open>A\<close> to \<open>Z\<close> and the
  Latin-1 capitals (192 to 222 without the multiplication sign 215) move up by 32.
\<close>

definition lower_char :: "char \<Rightarrow> char" where
  "lower_char c =
     (let n = (of_char c :: nat)
      in if (65 \<le> n \<and> n \<le> 90) \<or> (192 \<le> n \<and> n \<le> 222 \<and> n \<noteq> 215)
         then char_of (n + 32) else c)"

definition lower :: "string \<Rightarrow> string" where
  "lower s = map lower_char s"

text \<open>
  \<^verbatim>\<open>os.path.join(a, b)\<close> on POSIX: an absolute second component replaces the
  first; otherwise one separator stands between them.
\<close>

definition os_path_join :: "string \<Rightarrow> string \<Rightarrow> string" where
  "os_path_join a b =
     (if b \<noteq> [] \<and> hd b = CHR ''/'' then b
      else if a = [] \<or> last a = CHR ''/'' then a @ b
      else a @ ''/'' @ b)"

text \<open>\<^verbatim>\<open>str(n)\<close> for a Python integer: decimal digits, with a sign when negative.\<close>

fun str_nat :: "nat \<Rightarrow> string" where
  "str_nat n =
     (if n < 10 then [char_of (48 + n)]
      else str_nat (n div 10) @ [char_of (48 + n mod 10)])"

declare str_nat.simps [simp del]

definition str_int :: "int \<Rightarrow> string" where
  "str_int i = (if i < 0 then CHR ''-'' # str_nat (nat (- i)) else str_nat (nat i))"

subsection \<open>\<^verbatim>\<open>str.format\<close>\<close>

text \<open>
  A format string is read into segments: literal characters and replacement fields.
  \<^verbatim>\<open>{{\<close> and \<^verbatim>\<open>}}\<close> stand for one brace; \<^verbatim>\<open>{name}\<close> is a field; a single
  \<^verbatim>\<open>}\<close> or a field that is not closed is a \<^verbatim>\<open>ValueError\<close>.  The fields of this
  program are plain names (keyword arguments, or the positions \<open>0\<close>, \<open>1\<close>, ... of
  positional arguments), without conversions or format specifications, so a field
  is replaced by \<^verbatim>\<open>str\<close> of its argument; a name that is not bound is a
  \<^verbatim>\<open>KeyError\<close>.  The arguments are given as an association list from the field
  name to that text.
\<close>

datatype seg = Lit char | Field string

fun parse_format :: "string option \<Rightarrow> string \<Rightarrow> error + seg list" where
  "parse_format None [] = Inr []"
| "parse_format (Some acc) [] = Inl ValueError"
| "parse_format None (c # cs) =
     (if c = CHR ''{'' then
        (case cs of
           [] \<Rightarrow> Inl ValueError
         | d # r \<Rightarrow>
             if d = CHR ''{'' then map_sum id (Cons (Lit CHR ''{'')) (parse_format None r)
             else parse_format (Some []) cs)
      else if c = CHR ''}'' then
        (case cs of
           [] \<Rightarrow> Inl ValueError
         | d # r \<Rightarrow>
             if d = CHR ''}'' then map_sum id (Cons (Lit CHR ''}'')) (parse_format None r)
             else Inl ValueError)
      else map_sum id (Cons (Lit c)) (parse_format None cs))"
| "parse_format (Some acc) (c # cs) =
     (if c = CHR ''}'' then map_sum id (Cons (Field (rev acc))) (parse_format None cs)
      else parse_format (Some (c # acc)) cs)"

fun fill :: "(string \<times> string) list \<Rightarrow> seg list \<Rightarrow> error + string" where
  "fill kw [] = Inr []"
| "fill kw (Lit c # segs) = map_sum id (Cons c) (fill kw segs)"
| "fill kw (Field name # segs) =
     (case map_of kw name of
        None \<Rightarrow> Inl KeyError
      | Some v \<Rightarrow> map_sum id (append v) (fill kw segs))"

definition format :: "string \<Rightarrow> (string \<times> string) list \<Rightarrow> error + string" where
  "format template kw =
     (case parse_format None template of
        Inl e \<Rightarrow> Inl e
      | Inr segs \<Rightarrow> fill kw segs)"
section \<open>The ingestion driver: \<^verbatim>\<open>_load\<close>\<close>

subsection \<open>Python numbers\<close>

text \<open>
  The bounds of the summary are JSON numbers, which \<^verbatim>\<open>json.loads\<close> reads as Python
  integers or floats; the scales are float literals and, under the \<^verbatim>\<open>e57\<close>
  override, the integers 0 and 1.  The driver adds, subtracts, divides and rounds
  them and prints them with \<^verbatim>\<open>str\<close>.  Floating point arithmetic is not modelled
  here: the values are of a type \<open>'n\<close>, and the interpreter's operations on them
  are a record of functions, so every theorem below holds for whatever these
  operations compute.  \<open>num_of_float\<close> reads a float literal as the source writes
  it, \<open>num_of_int\<close> an integer literal.
\<close>

record 'n py_num =
  num_add :: "'n \<Rightarrow> 'n \<Rightarrow> 'n"
  num_sub :: "'n \<Rightarrow> 'n \<Rightarrow> 'n"
  num_truediv :: "'n \<Rightarrow> 'n \<Rightarrow> 'n"
  num_round :: "'n \<Rightarrow> int \<Rightarrow> 'n"
  num_of_int :: "int \<Rightarrow> 'n"
  num_of_float :: "string \<Rightarrow> 'n"
  num_str :: "'n \<Rightarrow> string"

subsection \<open>The collaborators\<close>

text \<open>
  The \<^verbatim>\<open>summary\<close> object of \<^verbatim>\<open>pdal info --summary\<close>, by the keys the driver reads:
  \<^verbatim>\<open>summary['srs']['isgeographic']\<close>, \<^verbatim>\<open>summary['srs']['proj4']\<close> and
  \<^verbatim>\<open>summary['bounds'][axis]['min' | 'max']\<close>.
\<close>

record 'n summary =
  srs_isgeographic :: bool
  srs_proj4 :: string
  bounds_X_min :: 'n
  bounds_X_max :: 'n
  bounds_Y_min :: 'n
  bounds_Y_max :: 'n
  bounds_Z_min :: 'n
  bounds_Z_max :: 'n

text \<open>
  A \<^verbatim>\<open>pathlib.Path\<close> object, by what the driver reads of it: \<^verbatim>\<open>str(p)\<close>,
  \<^verbatim>\<open>p.suffix\<close>, \<^verbatim>\<open>p.stem\<close> and \<^verbatim>\<open>str(p.resolve())\<close>.
\<close>

record pypath =
  path_str :: string
  path_suffix :: string
  path_stem :: string
  path_resolve :: string

text \<open>\<^verbatim>\<open>app.config\<close>, by the four keys the driver reads, each as \<^verbatim>\<open>str\<close> prints it.\<close>

record config =
  PG_NAME :: string
  PG_PORT :: string
  PG_USER :: string
  PG_PASSWORD :: string

text \<open>
  A \<^verbatim>\<open>Session(table, column)\<close> object of \<^verbatim>\<open>lopocs.database\<close>, by the attributes
  the driver reads: \<^verbatim>\<open>lpsession.table\<close>, \<^verbatim>\<open>lpsession.column\<close> and the six keys
  of \<^verbatim>\<open>lpsession.boundingbox\<close>.
\<close>

record 'n boundingbox =
  xmin :: 'n
  ymin :: 'n
  zmin :: 'n
  xmax :: 'n
  ymax :: 'n
  zmax :: 'n

record 'n session =
  session_table :: string
  session_column :: string
  session_boundingbox :: "'n boundingbox"

text \<open>
  Everything outside \<^verbatim>\<open>cli.py\<close> that a run consults.  \<open>check_output\<close> is the
  \<^verbatim>\<open>pdal info\<close> subprocess with \<^verbatim>\<open>json.loads(...)['summary']\<close> applied to its
  output: \<open>None\<close> is \<^verbatim>\<open>CalledProcessError\<close>; an exit status of zero is taken to
  come with a well-formed summary.  \<open>check_call\<close> tells whether the
  \<^verbatim>\<open>pdal pipeline\<close> subprocess exits with status zero.  The two hierarchy builders
  return opaque documents.  Exceptions of the database layer, of \<^verbatim>\<open>io.open\<close> for
  writing and of the builders are not modelled, and neither is the console output of
  \<^verbatim>\<open>pending\<close>, \<^verbatim>\<open>ok\<close> and \<^verbatim>\<open>fatal\<close>.
\<close>

record 'n world =
  Path :: "string \<Rightarrow> pypath"
  app_config :: config
  check_output :: "string \<Rightarrow> 'n summary option"
  check_call :: "string \<Rightarrow> bool"
  SpatialReference :: osr
  open_lines :: files
  potree_schema :: string
  Session :: "string \<Rightarrow> string \<Rightarrow> 'n session"
  greyhound_build_hierarchy_from_pg :: "'n session \<Rightarrow> int \<Rightarrow> int \<Rightarrow> 'n list \<Rightarrow> string"
  threedtiles_build_hierarchy_from_pg ::
    "'n session \<Rightarrow> string \<Rightarrow> int \<Rightarrow> 'n list \<Rightarrow> int \<Rightarrow> string"
  num :: "'n py_num"

text \<open>What a run does to the outside, in order.\<close>

datatype 'n event =
    CreatePointcloudLopocsTable
  | CheckOutput string
  | OpenFile string
  | WriteFile string string
  | CheckCall string
  | Execute string
  | UpdateMetadata string string string 'n 'n 'n 'n 'n 'n
  | AddOutputSchema string string 'n 'n 'n 'n 'n 'n string string
  | NewSession string string
  | GreyhoundBuild int int "'n list"
  | WriteInCache string string
  | ThreedtilesBuild string int "'n list" int

text \<open>The subprocesses among the events: \<^verbatim>\<open>check_output\<close> and \<^verbatim>\<open>check_call\<close>.\<close>

fun is_external_tool :: "'n event \<Rightarrow> bool" where
  "is_external_tool (CheckOutput _) = True"
| "is_external_tool (CheckCall _) = True"
| "is_external_tool _ = False"

subsection \<open>Table name (lines 103 to 105 and 142)\<close>

definition normalize_table :: "string \<Rightarrow> string" where
  "normalize_table table = (if CHR ''.'' \<notin> set table then ''public.'' @ table else table)"

text \<open>
  \<^verbatim>\<open>schema, tab = table.split('.')\<close>: unpacking anything but two pieces raises
  \<^verbatim>\<open>ValueError\<close>.
\<close>

definition split_table :: "string \<Rightarrow> error + string \<times> string" where
  "split_table table =
     (case split CHR ''.'' table of
        [schema, tab] \<Rightarrow> Inr (schema, tab)
      | _ \<Rightarrow> Inl ValueError)"

subsection \<open>Scales and offsets (lines 115 to 135)\<close>

text \<open>
  The result is \<open>((scale_x, scale_y, scale_z), (offset_x, offset_y, offset_z))\<close> as
  the variables stand after line 135.
\<close>

definition quantization ::
  "'n py_num \<Rightarrow> 'n summary \<Rightarrow> string \<Rightarrow> ('n \<times> 'n \<times> 'n) \<times> ('n \<times> 'n \<times> 'n)" where
  "quantization py summary extension =
     (let scales =
            (if srs_isgeographic summary
             then (num_of_float py ''1e-6'', num_of_float py ''1e-6'', num_of_float py ''1e-2'')
             else (num_of_float py ''0.01'', num_of_float py ''0.01'', num_of_float py ''0.01''));
          offset_x = num_add py (bounds_X_min summary)
            (num_truediv py (num_sub py (bounds_X_max summary) (bounds_X_min summary))
               (num_of_int py 2));
          offset_y = num_add py (bounds_Y_min summary)
            (num_truediv py (num_sub py (bounds_Y_max summary) (bounds_Y_min summary))
               (num_of_int py 2));
          offset_z = num_add py (bounds_Z_min summary)
            (num_truediv py (num_sub py (bounds_Z_max summary) (bounds_Z_min summary))
               (num_of_int py 2));
          offset_x = num_round py offset_x 2;
          offset_y = num_round py offset_y 2;
          offset_z = num_round py offset_z 2
      in
      if extension = ''e57'' then
        ((num_of_int py 1, num_of_int py 1, num_of_int py 1),
         (num_of_int py 0, num_of_int py 0, num_of_int py 0))
      else (scales, (offset_x, offset_y, offset_z)))"
text \<open>The format string of lines 145 to 176, line by line as the source has it.\<close>

definition json_pipeline_template :: string where
  \<open>json_pipeline_template =
     ''\<newline>'' @
     ''{{\<newline>'' @
     ''"pipeline": [\<newline>'' @
     ''    {{\<newline>'' @
     ''        "type": "readers.{extension}",\<newline>'' @
     ''        "filename":"{realfilename}"\<newline>'' @
     ''    }},\<newline>'' @
     ''    {{\<newline>'' @
     ''        "type": "filters.chipper",\<newline>'' @
     ''        "capacity":400\<newline>'' @
     ''    }},\<newline>'' @
     ''    {{\<newline>'' @
     ''        "type": "filters.revertmorton"\<newline>'' @
     ''    }},\<newline>'' @
     ''    {{\<newline>'' @
     ''        "type":"writers.pgpointcloud",\<newline>'' @
     ''        "connection":"dbname={pg_name} port={pg_port} user={pg_user} password={pg_password}",\<newline>'' @
     ''        "schema": "{schema}",\<newline>'' @
     ''        "table":"{tab}",\<newline>'' @
     ''        "compression":"none",\<newline>'' @
     ''        "srid":"{srid}",\<newline>'' @
     ''        "overwrite":"true",\<newline>'' @
     ''        "column": "points",\<newline>'' @
     ''        "scale_x": "{scale_x}",\<newline>'' @
     ''        "scale_y": "{scale_y}",\<newline>'' @
     ''        "scale_z": "{scale_z}",\<newline>'' @
     ''        "offset_x": "{offset_x}",\<newline>'' @
     ''        "offset_y": "{offset_y}",\<newline>'' @
     ''        "offset_z": "{offset_z}"\<newline>'' @
     ''    }}\<newline>'' @
     '']\<newline>'' @
     ''}}''\<close>

text \<open>The format string of the statements of lines 190 to 195.\<close>

definition index_statements_template :: string where
  \<open>index_statements_template =
     ''\<newline>'' @
     ''        create index on {table} using gist(geometry(points));\<newline>'' @
     ''        alter table {table} add column morton bigint;\<newline>'' @
     ''        select Morton_Update('{table}', 'points', 'morton', 64, TRUE);\<newline>'' @
     ''        create index on {table}(morton);\<newline>'' @
     ''    ''\<close>
subsection \<open>Sequencing\<close>

text \<open>
  A step gives the events it caused and its value or the exception it raised; the
  steps after an exception do not run.
\<close>

type_synonym ('n, 'a) step = "'n event list \<times> (error + 'a)"

definition bind :: "('n, 'a) step \<Rightarrow> ('a \<Rightarrow> ('n, 'b) step) \<Rightarrow> ('n, 'b) step" where
  "bind m k =
     (case m of
        (ev, Inl e) \<Rightarrow> (ev, Inl e)
      | (ev, Inr a) \<Rightarrow> (case k a of (ev', r) \<Rightarrow> (ev @ ev', r)))"

definition emit :: "'n event \<Rightarrow> ('n, unit) step" where
  "emit e = ([e], Inr ())"

definition lift :: "error + 'a \<Rightarrow> ('n, 'a) step" where
  "lift r = ([], r)"

subsection \<open>The pipeline description (lines 137 to 176)\<close>

text \<open>
  \<^verbatim>\<open>locals()\<close> at the two \<^verbatim>\<open>format(**locals())\<close> calls: the local variables that
  hold text or numbers, each as \<^verbatim>\<open>str\<close> prints it.  (\<^verbatim>\<open>locals()\<close> also binds
  \<^verbatim>\<open>basedir\<close>, \<^verbatim>\<open>output\<close> and \<^verbatim>\<open>summary\<close>, which no template names.)
\<close>

definition load_locals ::
  "'n py_num \<Rightarrow> pypath \<Rightarrow> string \<Rightarrow> string \<Rightarrow> pypath \<Rightarrow> string \<Rightarrow> string \<Rightarrow> string \<Rightarrow> string
     \<Rightarrow> string \<Rightarrow> ('n \<times> 'n \<times> 'n) \<times> ('n \<times> 'n \<times> 'n) \<Rightarrow> config \<Rightarrow> string \<Rightarrow> string \<Rightarrow> string
     \<Rightarrow> (string \<times> string) list" where
  "load_locals py filename table column work_dir server_url extension basename json_path cmd q
     cfg schema tab srid =
     (case q of ((scale_x, scale_y, scale_z), (offset_x, offset_y, offset_z)) \<Rightarrow>
        [(''filename'', path_str filename), (''table'', table), (''column'', column),
         (''work_dir'', path_str work_dir), (''server_url'', server_url),
         (''extension'', extension), (''basename'', basename), (''json_path'', json_path),
         (''cmd'', cmd),
         (''scale_x'', num_str py scale_x), (''scale_y'', num_str py scale_y),
         (''scale_z'', num_str py scale_z),
         (''offset_x'', num_str py offset_x), (''offset_y'', num_str py offset_y),
         (''offset_z'', num_str py offset_z),
         (''pg_name'', PG_NAME cfg), (''pg_port'', PG_PORT cfg), (''pg_user'', PG_USER cfg),
         (''pg_password'', PG_PASSWORD cfg),
         (''realfilename'', path_resolve filename),
         (''schema'', schema), (''tab'', tab), (''srid'', srid)])"

subsection \<open>The hierarchies (lines 208 to 247)\<close>

text \<open>
  \<^verbatim>\<open>"{0}_{1}_{2}_{3}_{4}.hcy".format(lpsession.table, lpsession.column, lod_min,
  lod_max, '_'.join(str(e) for e in bbox))\<close>
\<close>

definition cache_file ::
  "'n py_num \<Rightarrow> string \<Rightarrow> string \<Rightarrow> int \<Rightarrow> int \<Rightarrow> 'n list \<Rightarrow> string" where
  "cache_file py table column lod_min lod_max bbox =
     table @ ''_'' @ column @ ''_'' @ str_int lod_min @ ''_'' @ str_int lod_max @ ''_'' @
     join ''_'' (map (num_str py) bbox) @ ''.hcy''"

definition bbox_list :: "'n boundingbox \<Rightarrow> 'n list" where
  "bbox_list fullbbox =
     [xmin fullbbox, ymin fullbbox, zmin fullbbox, xmax fullbbox, ymax fullbbox, zmax fullbbox]"

definition load_hierarchies ::
  "'n world \<Rightarrow> string \<Rightarrow> string \<Rightarrow> pypath \<Rightarrow> string \<Rightarrow> ('n, unit) step" where
  "load_hierarchies w table column work_dir server_url =
     (let lpsession = Session w table column;
          lod_min = 0;
          lod_max = 5;
          fullbbox = session_boundingbox lpsession;
          bbox = bbox_list fullbbox;
          cache = cache_file (num w) (session_table lpsession) (session_column lpsession)
                    lod_min lod_max bbox;
          new_hcy = greyhound_build_hierarchy_from_pg w lpsession lod_min lod_max bbox;
          hcy = threedtiles_build_hierarchy_from_pg w lpsession server_url lod_max bbox lod_min;
          tileset = os_path_join (path_resolve work_dir) ''tileset.json''
      in
      ([NewSession table column,
        GreyhoundBuild lod_min lod_max bbox,
        WriteInCache new_hcy cache,
        ThreedtilesBuild server_url lod_max bbox lod_min,
        WriteFile tileset hcy], Inr ()))"

subsection \<open>The driver\<close>

text \<open>
  \<^verbatim>\<open>_load(filename, table, column, work_dir, server_url)\<close>, statement by statement.
  The one-field templates \<^verbatim>\<open>'{basename}_{table}_pipeline.json'\<close>,
  \<^verbatim>\<open>"pdal info --summary {}"\<close> and \<^verbatim>\<open>"pdal pipeline {}"\<close> are written as the
  concatenations they produce; \<^verbatim>\<open>json_path\<close> is built from the table name as the
  caller gave it, before line 104 prefixes it.
\<close>

definition load_impl ::
  "'n world \<Rightarrow> string \<Rightarrow> string \<Rightarrow> string \<Rightarrow> string \<Rightarrow> string \<Rightarrow> ('n, unit) step" where
  "load_impl w filename table column work_dir server_url =
     (let filename = Path w filename;
          work_dir = Path w work_dir;
          extension = lower (drop 1 (path_suffix filename));
          basename = path_stem filename
      in
      bind (emit CreatePointcloudLopocsTable) (\<lambda>_.
      let json_path = os_path_join (path_resolve work_dir)
                        (basename @ ''_'' @ table @ ''_pipeline.json'');
          table = normalize_table table;
          cmd = ''pdal info --summary '' @ path_str filename
      in
      bind (emit (CheckOutput cmd)) (\<lambda>_.
      bind (lift (case check_output w cmd of
                    None \<Rightarrow> Inl (SystemExit 1)
                  | Some summary \<Rightarrow> Inr summary)) (\<lambda>summary.
      let q = quantization (num w) summary extension;
          cfg = app_config w
      in
      bind (lift (split_table table)) (\<lambda>(schema, tab).
      bind (case proj42epsg (SpatialReference w) (open_lines w) (srs_proj4 summary)
                   ''/usr/share/proj/epsg'' False of
              (opened, r) \<Rightarrow> (map OpenFile opened, r)) (\<lambda>srid.
      let kw = load_locals (num w) filename table column work_dir server_url extension
                 basename json_path cmd q cfg schema tab srid
      in
      bind (lift (format json_pipeline_template kw)) (\<lambda>json_pipeline.
      bind (emit (WriteFile json_path json_pipeline)) (\<lambda>_.
      let cmd = ''pdal pipeline '' @ json_path in
      bind (emit (CheckCall cmd)) (\<lambda>_.
      bind (lift (if check_call w cmd then Inr () else Inl (SystemExit 1))) (\<lambda>_.
      bind (lift (format index_statements_template
                    ((''cmd'', cmd) # (''json_pipeline'', json_pipeline) # kw))) (\<lambda>statements.
      bind (emit (Execute statements)) (\<lambda>_.
      case q of ((scale_x, scale_y, scale_z), (offset_x, offset_y, offset_z)) \<Rightarrow>
      bind (emit (UpdateMetadata table column srid scale_x scale_y scale_z
                    offset_x offset_y offset_z)) (\<lambda>_.
      bind (emit (AddOutputSchema table column
                    (num_of_float (num w) ''0.01'') (num_of_float (num w) ''0.01'')
                    (num_of_float (num w) ''0.01'')
                    offset_x offset_y offset_z srid (potree_schema w))) (\<lambda>_.
      load_hierarchies w table column work_dir server_url))))))))))))))"
subsection \<open>The fields a template names\<close>

fun field_names :: "seg list \<Rightarrow> string list" where
  "field_names [] = []"
| "field_names (Lit c # segs) = field_names segs"
| "field_names (Field name # segs) = name # field_names segs"

definition template_fields :: "string \<Rightarrow> error + string list" where
  "template_fields template = map_sum id field_names (parse_format None template)"

section \<open>The pipeline description as a JSON document\<close>

text \<open>
  The description is built as text from a template, so its stages are read off the
  template: the segments of the format string are read as JSON in which a
  replacement field is a character of a string literal that stands for the text put
  in its place.  This reader covers the JSON the template uses: objects, arrays,
  string literals without escapes, and unsigned integers.  A replacement field
  outside a string literal, or a backslash, is refused.
\<close>

datatype token =
    TLBrace | TRBrace | TLBracket | TRBracket | TColon | TComma
  | TString "seg list"
  | TNumber nat






datatype json =
    JString "seg list"
  | JNumber nat
  | JArray "json list"
  | JObject "(seg list \<times> json) list"

text \<open>
  Recursive descent over the tokens.  The first argument bounds the depth of the
  calls; \<open>parse_json\<close> starts with the number of tokens, which the descent cannot
  use up, since every call that goes deeper has consumed a token.
\<close>

fun parse_value :: "nat \<Rightarrow> token list \<Rightarrow> (json \<times> token list) option"
  and parse_elements :: "nat \<Rightarrow> token list \<Rightarrow> (json list \<times> token list) option"
  and parse_members :: "nat \<Rightarrow> token list \<Rightarrow> ((seg list \<times> json) list \<times> token list) option"
where
  "parse_value 0 ts = None"
| "parse_value (Suc n) [] = None"
| "parse_value (Suc n) (t # ts) =
     (case t of
        TString s \<Rightarrow> Some (JString s, ts)
      | TNumber k \<Rightarrow> Some (JNumber k, ts)
      | TLBracket \<Rightarrow>
          (case ts of
             TRBracket # r \<Rightarrow> Some (JArray [], r)
           | _ \<Rightarrow> map_option (\<lambda>(vs, r). (JArray vs, r)) (parse_elements n ts))
      | TLBrace \<Rightarrow>
          (case ts of
             TRBrace # r \<Rightarrow> Some (JObject [], r)
           | _ \<Rightarrow> map_option (\<lambda>(ms, r). (JObject ms, r)) (parse_members n ts))
      | _ \<Rightarrow> None)"
| "parse_elements 0 ts = None"
| "parse_elements (Suc n) ts =
     (case parse_value n ts of
        None \<Rightarrow> None
      | Some (v, r) \<Rightarrow>
          (case r of
             TComma # r' \<Rightarrow> map_option (\<lambda>(vs, r''). (v # vs, r'')) (parse_elements n r')
           | TRBracket # r' \<Rightarrow> Some ([v], r')
           | _ \<Rightarrow> None))"
| "parse_members 0 ts = None"
| "parse_members (Suc n) ts =
     (case ts of
        TString k # TColon # ts' \<Rightarrow>
          (case parse_value n ts' of
             None \<Rightarrow> None
           | Some (v, r) \<Rightarrow>
               (case r of
                  TComma # r' \<Rightarrow>
                    map_option (\<lambda>(ms, r''). ((k, v) # ms, r'')) (parse_members n r')
                | TRBrace # r' \<Rightarrow> Some ([(k, v)], r')
                | _ \<Rightarrow> None))
      | _ \<Rightarrow> None)"









section \<open>Instances for evaluation\<close>

text \<open>
  Exact arithmetic on the rationals as an instance of the number operations:
  rounding is to the nearest multiple of the unit, a tie going to the even one, and a
  number prints as its reduced fraction.
\<close>

definition round_half_even :: "rat \<Rightarrow> int" where
  "round_half_even q =
     (let f = \<lfloor>q\<rfloor>; d = q - of_int f
      in if d < 1 / 2 then f else if 1 / 2 < d then f + 1 else if even f then f else f + 1)"

definition exact_num :: "rat py_num" where
  "exact_num =
     \<lparr> num_add = (+), num_sub = (-), num_truediv = (/),
       num_round = (\<lambda>x k. of_int (round_half_even (x * 10 ^ nat k)) / 10 ^ nat k),
       num_of_int = of_int,
       num_of_float = (\<lambda>s. if s = ''1e-6'' then 1 / 1000000
                           else if s = ''1e-2'' then 1 / 100
                           else if s = ''0.01'' then 1 / 100 else 0),
       num_str = (\<lambda>q. case quotient_of q of
                          (a, b) \<Rightarrow> if b = 1 then str_int a else str_int a @ ''/'' @ str_int b) \<rparr>"

definition sample_summary :: "rat summary" where
  "sample_summary =
     \<lparr> srs_isgeographic = True, srs_proj4 = ''+proj=lcc'',
       bounds_X_min = 0, bounds_X_max = 10,
       bounds_Y_min = 0, bounds_Y_max = 20,
       bounds_Z_min = 0, bounds_Z_max = 5 \<rparr>"

text \<open>
  A world for evaluation: two files, a geographic summary for both, a database that
  answers with a fixed bounding box, and builders that return fixed documents.
\<close>

definition sample_path :: "string \<Rightarrow> pypath" where
  "sample_path s =
     (if s = ''cloud.las'' then
        \<lparr> path_str = ''cloud.las'', path_suffix = ''.las'', path_stem = ''cloud'',
          path_resolve = ''/data/cloud.las'' \<rparr>
      else if s = ''scan.E57'' then
        \<lparr> path_str = ''scan.E57'', path_suffix = ''.E57'', path_stem = ''scan'',
          path_resolve = ''/data/scan.E57'' \<rparr>
      else \<lparr> path_str = s, path_suffix = [], path_stem = s, path_resolve = s \<rparr>)"

definition sample_world :: "rat world" where
  "sample_world =
     \<lparr> Path = sample_path,
       app_config = \<lparr> PG_NAME = ''lopocs'', PG_PORT = ''5432'', PG_USER = ''user'',
                      PG_PASSWORD = ''secret'' \<rparr>,
       check_output = (\<lambda>cmd. if cmd = ''pdal info --summary cloud.las'' \<or>
                                cmd = ''pdal info --summary scan.E57''
                             then Some sample_summary else None),
       check_call = (\<lambda>cmd. True),
       SpatialReference = sample_osr,
       open_lines = sample_files,
       potree_schema = ''potree'',
       Session = (\<lambda>table column.
          \<lparr> session_table = table, session_column = column,
            session_boundingbox =
              \<lparr> xmin = 0, ymin = 0, zmin = 0, xmax = 10, ymax = 20, zmax = 5 \<rparr> \<rparr>),
       greyhound_build_hierarchy_from_pg = (\<lambda>s lod_min lod_max bbox. ''hierarchy''),
       threedtiles_build_hierarchy_from_pg = (\<lambda>s url lod_max bbox lod_min. ''tileset''),
       num = exact_num \<rparr>"

text \<open>The natural numbers with their decimal text, as a second instance.\<close>

definition nat_num :: "nat py_num" where
  "nat_num =
     \<lparr> num_add = (+), num_sub = (-), num_truediv = (div),
       num_round = (\<lambda>x k. x),
       num_of_int = nat,
       num_of_float = (\<lambda>s. 0),
       num_str = str_nat \<rparr>"

section \<open>Properties of the resolver\<close>

lemma find_from_range: "find_from s sub i = - 1 \<or> i \<le> find_from s sub i"
proof (induction s arbitrary: i)
  case Nil
  then show ?case by simp
next
  case (Cons c cs)
  from Cons [of "i + 1"] show ?case by auto
qed

lemma find_from_found:
  "0 \<le> i \<Longrightarrow> find_from s sub i \<noteq> - 1 \<longleftrightarrow> (\<exists>pre post. s = pre @ sub @ post)"
proof (induction s arbitrary: i)
  case Nil
  then show ?case by auto
next
  case (Cons c cs)
  show ?case
  proof (cases "prefix sub (c # cs)")
    case True
    then obtain post where "c # cs = sub @ post" by (auto simp: prefix_def)
    then have "c # cs = [] @ sub @ post" by simp
    then have "\<exists>pre post. c # cs = pre @ sub @ post" by blast
    with True Cons.prems show ?thesis by simp
  next
    case False
    have step: "find_from cs sub (i + 1) \<noteq> - 1 \<longleftrightarrow> (\<exists>pre post. cs = pre @ sub @ post)"
      using Cons.IH [of "i + 1"] Cons.prems by simp
    have "(\<exists>pre post. c # cs = pre @ sub @ post) \<longleftrightarrow> (\<exists>pre post. cs = pre @ sub @ post)"
    proof
      assume "\<exists>pre post. c # cs = pre @ sub @ post"
      then obtain pre post where e: "c # cs = pre @ sub @ post" by blast
      show "\<exists>pre post. cs = pre @ sub @ post"
      proof (cases pre)
        case Nil
        with e have "prefix sub (c # cs)" by (simp add: prefix_def)
        with False show ?thesis by simp
      next
        case (Cons a pre')
        with e have "cs = pre' @ sub @ post" by simp
        then show ?thesis by blast
      qed
    next
      assume "\<exists>pre post. cs = pre @ sub @ post"
      then obtain pre post where "cs = pre @ sub @ post" by blast
      then have "c # cs = (c # pre) @ sub @ post" by simp
      then show "\<exists>pre post. c # cs = pre @ sub @ post" by blast
    qed
    with step False show ?thesis by simp
  qed
qed

lemma str_find_contains:
  "str_find s sub \<noteq> - 1 \<longleftrightarrow> (\<exists>pre post. s = pre @ sub @ post)"
  unfolding str_find_def by (rule find_from_found) simp

lemma re_match_shape:
  "re_match s = Some g \<Longrightarrow>
     g \<noteq> [] \<and> (\<forall>c \<in> set g. isdigit c) \<and> (\<exists>post. s = ''<'' @ g @ ''>'' @ post)"
proof -
  assume m: "re_match s = Some g"
  then obtain r where s: "s = CHR ''<'' # r"
    by (auto simp: re_match_def split: list.splits if_splits)
  from m s obtain post where d: "dropWhile isdigit r = CHR ''>'' # post"
    and g: "g = takeWhile isdigit r" and ne: "g \<noteq> []"
    by (auto simp: re_match_def split: list.splits if_splits)
  have "r = takeWhile isdigit r @ dropWhile isdigit r" by simp
  with d g have "r = g @ CHR ''>'' # post" by simp
  with s have "s = ''<'' @ g @ ''>'' @ post" by simp
  moreover have "\<forall>c \<in> set g. isdigit c"
    using g by (auto dest: set_takeWhileD)
  ultimately show ?thesis using ne by blast
qed

lemma re_search_shape:
  "re_search s = Some g \<Longrightarrow>
     g \<noteq> [] \<and> (\<forall>c \<in> set g. isdigit c) \<and> (\<exists>pre post. s = pre @ ''<'' @ g @ ''>'' @ post)"
proof (induction s)
  case Nil
  then show ?case by simp
next
  case (Cons c cs)
  show ?case
  proof (cases "re_match (c # cs)")
    case None
    with Cons.prems have "re_search cs = Some g" by simp
    from Cons.IH [OF this] obtain pre post where
      "g \<noteq> []" "\<forall>c \<in> set g. isdigit c" "cs = pre @ ''<'' @ g @ ''>'' @ post"
      by blast
    then have "c # cs = (c # pre) @ ''<'' @ g @ ''>'' @ post" by simp
    with \<open>g \<noteq> []\<close> \<open>\<forall>c \<in> set g. isdigit c\<close> show ?thesis by blast
  next
    case (Some h)
    with Cons.prems have "h = g" by simp
    with Some have "re_match (c # cs) = Some g" by simp
    from re_match_shape [OF this] obtain post where
      "g \<noteq> []" "\<forall>c \<in> set g. isdigit c" "c # cs = ''<'' @ g @ ''>'' @ post"
      by blast
    then have "c # cs = [] @ ''<'' @ g @ ''>'' @ post" by simp
    with \<open>g \<noteq> []\<close> \<open>\<forall>c \<in> set g. isdigit c\<close> show ?thesis by blast
  qed
qed

lemma scan_epsg_no_line:
  "\<forall>l \<in> set f. str_find l p_out = - 1 \<Longrightarrow> scan_epsg f p_out code = code"
  by (induction f) auto


text \<open>
  C4.  When \<^verbatim>\<open>ImportFromProj4\<close> reports the projection string invalid (status 5),
  the resolver returns the default SRID \<open>4326\<close> at once: a returned value, not an
  exception, with no file opened, whatever the flag and the definitions file are.
\<close>

theorem proj42epsg_invalid:
  "ImportFromProj4 (lib proj4) = 5 \<Longrightarrow>
   proj42epsg lib fs proj4 epsg forceProj4 = ([], Inr ''4326'')"
  by (simp add: proj42epsg_def)

theorem proj42epsg_invalid_witness:
  "ImportFromProj4 (sample_osr ''garbage'') = 5 \<and>
   proj42epsg sample_osr sample_files ''garbage'' ''/usr/share/proj/epsg'' False
     = ([], Inr ''4326'')"
proof -
  have h: "ImportFromProj4 (sample_osr ''garbage'') = 5"
    by (simp add: sample_osr_def sample_reference_def)
  from proj42epsg_invalid [of sample_osr "''garbage''" sample_files "''/usr/share/proj/epsg''" False] h
  show ?thesis by simp
qed

text \<open>
  C6.  For a reference that parsed (status other than 5) and is a local coordinate
  system, the resolver returns the text of \<^verbatim>\<open>ExportToWkt()\<close> unchanged, not a
  numeric code and not the default.
\<close>

theorem proj42epsg_local:
  "ImportFromProj4 (lib proj4) \<noteq> 5 \<Longrightarrow> IsLocal (lib proj4) = 1 \<Longrightarrow>
   proj42epsg lib fs proj4 epsg forceProj4 = ([], Inr (ExportToWkt (lib proj4)))"
  by (simp add: proj42epsg_def)

theorem proj42epsg_local_witness:
  "ImportFromProj4 (sample_osr ''+proj=local'') \<noteq> 5 \<and>
   IsLocal (sample_osr ''+proj=local'') = 1 \<and>
   proj42epsg sample_osr sample_files ''+proj=local'' ''/usr/share/proj/epsg'' False
     = ([], Inr ''LOCAL_CS[x]'')"
proof -
  have h1: "ImportFromProj4 (sample_osr ''+proj=local'') \<noteq> 5"
    by (simp add: sample_osr_def sample_reference_def)
  have h2: "IsLocal (sample_osr ''+proj=local'') = 1"
    by (simp add: sample_osr_def sample_reference_def)
  have w: "ExportToWkt (sample_osr ''+proj=local'') = ''LOCAL_CS[x]''"
    by (simp add: sample_osr_def sample_reference_def)
  from proj42epsg_local [of sample_osr "''+proj=local''" sample_files "''/usr/share/proj/epsg''" False]
    h1 h2 w
  show ?thesis by simp
qed

text \<open>
  C5.  For a reference that parsed, is not local, and carries both an authority name
  and an authority code for its category (\<open>GEOGCS\<close> when geographic, \<open>PROJCS\<close>
  otherwise), the resolver returns that authority code.  No file is opened, and the
  result is the same for every file system, also one where the definitions file does
  not exist: the scan is not performed.
\<close>

theorem proj42epsg_authority:
  "ImportFromProj4 (lib proj4) \<noteq> 5 \<Longrightarrow> IsLocal (lib proj4) \<noteq> 1 \<Longrightarrow>
   cstype = (if IsGeographic (lib proj4) = 1 then ''GEOGCS'' else ''PROJCS'') \<Longrightarrow>
   GetAuthorityName (lib proj4) cstype = Some an \<Longrightarrow>
   GetAuthorityCode (lib proj4) cstype = Some ac \<Longrightarrow>
   proj42epsg lib fs proj4 epsg forceProj4 = ([], Inr ac)"
  by (simp add: proj42epsg_def)

theorem proj42epsg_authority_witness:
  "ImportFromProj4 (sample_osr ''+init=epsg:2154'') \<noteq> 5 \<and>
   IsLocal (sample_osr ''+init=epsg:2154'') \<noteq> 1 \<and>
   GetAuthorityName (sample_osr ''+init=epsg:2154'') ''PROJCS'' = Some ''EPSG'' \<and>
   GetAuthorityCode (sample_osr ''+init=epsg:2154'') ''PROJCS'' = Some ''2154'' \<and>
   proj42epsg sample_osr (\<lambda>_. None) ''+init=epsg:2154'' ''/usr/share/proj/epsg'' False
     = ([], Inr ''2154'')"
proof -
  have h1: "ImportFromProj4 (sample_osr ''+init=epsg:2154'') \<noteq> 5"
    by (simp add: sample_osr_def sample_reference_def)
  have h2: "IsLocal (sample_osr ''+init=epsg:2154'') \<noteq> 1"
    by (simp add: sample_osr_def sample_reference_def)
  have h3: "''PROJCS'' =
      (if IsGeographic (sample_osr ''+init=epsg:2154'') = 1 then ''GEOGCS'' else ''PROJCS'')"
    by (simp add: sample_osr_def sample_reference_def)
  have h4: "GetAuthorityName (sample_osr ''+init=epsg:2154'') ''PROJCS'' = Some ''EPSG''"
    by (simp add: sample_osr_def sample_reference_def)
  have h5: "GetAuthorityCode (sample_osr ''+init=epsg:2154'') ''PROJCS'' = Some ''2154''"
    by (simp add: sample_osr_def sample_reference_def)
  from proj42epsg_authority [of sample_osr "''+init=epsg:2154''" "''PROJCS''" "''EPSG''" "''2154''"
      "\<lambda>_. None" "''/usr/share/proj/epsg''" False] h1 h2 h3 h4 h5
  show ?thesis by simp
qed




section \<open>Scales and offsets\<close>

text \<open>
  C2.  The scales and offsets after line 135, for every summary and every extension
  and whatever the number operations compute:
  \<^item> when the extension is not \<open>e57\<close> and the reference is geographic, the scales are
    the literals \<open>(1e-6, 1e-6, 1e-2)\<close>;
  \<^item> when the extension is not \<open>e57\<close> and the reference is not geographic, the scales
    are \<open>(0.01, 0.01, 0.01)\<close>;
  \<^item> when the extension is not \<open>e57\<close>, each offset is \<^verbatim>\<open>round(m, 2)\<close> of the
    midpoint \<open>m\<close> that the source computes as \<open>min + (max - min) / 2\<close> on that axis;
  \<^item> when the extension is \<open>e57\<close>, the scales are \<open>(1, 1, 1)\<close> and the offsets
    \<open>(0, 0, 0)\<close>, geographic or not: the override is applied last.
\<close>

theorem quantization_spec:
  "(extension \<noteq> ''e57'' \<and> srs_isgeographic summary \<longrightarrow>
      fst (quantization py summary extension) =
        (num_of_float py ''1e-6'', num_of_float py ''1e-6'', num_of_float py ''1e-2'')) \<and>
   (extension \<noteq> ''e57'' \<and> \<not> srs_isgeographic summary \<longrightarrow>
      fst (quantization py summary extension) =
        (num_of_float py ''0.01'', num_of_float py ''0.01'', num_of_float py ''0.01'')) \<and>
   (extension \<noteq> ''e57'' \<longrightarrow>
      snd (quantization py summary extension) =
        (num_round py (num_add py (bounds_X_min summary)
           (num_truediv py (num_sub py (bounds_X_max summary) (bounds_X_min summary))
              (num_of_int py 2))) 2,
         num_round py (num_add py (bounds_Y_min summary)
           (num_truediv py (num_sub py (bounds_Y_max summary) (bounds_Y_min summary))
              (num_of_int py 2))) 2,
         num_round py (num_add py (bounds_Z_min summary)
           (num_truediv py (num_sub py (bounds_Z_max summary) (bounds_Z_min summary))
              (num_of_int py 2))) 2)) \<and>
   (extension = ''e57'' \<longrightarrow>
      quantization py summary extension =
        ((num_of_int py 1, num_of_int py 1, num_of_int py 1),
         (num_of_int py 0, num_of_int py 0, num_of_int py 0)))"
  by (simp add: quantization_def Let_def)

theorem quantization_spec_witness:
  "quantization exact_num sample_summary ''las'' = ((1 / 1000000, 1 / 1000000, 1 / 100), (5, 10, 5 / 2)) \<and>
   quantization exact_num (sample_summary \<lparr> srs_isgeographic := False \<rparr>) ''las''
     = ((1 / 100, 1 / 100, 1 / 100), (5, 10, 5 / 2)) \<and>
   quantization exact_num sample_summary ''e57'' = ((1, 1, 1), (0, 0, 0))"
proof -
  have g: "''las'' \<noteq> ''e57''" "srs_isgeographic sample_summary"
    "\<not> srs_isgeographic (sample_summary \<lparr> srs_isgeographic := False \<rparr>)"
    by (simp_all add: sample_summary_def)
  have r: "round_half_even 500 = 500" "round_half_even 1000 = 1000" "round_half_even 250 = 250"
    by (simp_all add: round_half_even_def)
  note a = quantization_spec [of "''las''" sample_summary exact_num]
  note b = quantization_spec [of "''las''" "sample_summary \<lparr> srs_isgeographic := False \<rparr>" exact_num]
  note c = quantization_spec [of "''e57''" sample_summary exact_num]
  have a': "quantization exact_num sample_summary ''las''
      = ((1 / 1000000, 1 / 1000000, 1 / 100), (5, 10, 5 / 2))"
    using a g r by (simp add: prod_eq_iff exact_num_def sample_summary_def)
  have b': "quantization exact_num (sample_summary \<lparr> srs_isgeographic := False \<rparr>) ''las''
      = ((1 / 100, 1 / 100, 1 / 100), (5, 10, 5 / 2))"
    using b g r by (simp add: prod_eq_iff exact_num_def sample_summary_def)
  have c': "quantization exact_num sample_summary ''e57'' = ((1, 1, 1), (0, 0, 0))"
    using c by (simp add: exact_num_def)
  from a' b' c' show ?thesis by simp
qed

text \<open>
  In exact arithmetic the expression of the source is the midpoint \<open>(min + max) / 2\<close>.
\<close>

lemma exact_midpoint:
  "num_add exact_num lo (num_truediv exact_num (num_sub exact_num hi lo) (num_of_int exact_num 2))
     = (lo + hi) / 2"
  by (simp add: exact_num_def field_simps)

section \<open>Splitting and formatting\<close>

lemma split_not_Nil: "split sep s \<noteq> []"
  by (induction s) (auto split: list.splits)

lemma length_split: "length (split sep s) = Suc (count_list s sep)"
  by (induction s) (auto split: list.splits simp: split_not_Nil)

lemma split_no_sep: "sep \<notin> set s \<Longrightarrow> split sep s = [s]"
  by (induction s) auto

lemma split_append_sep: "sep \<notin> set a \<Longrightarrow> split sep (a @ sep # b) = a # split sep b"
  by (induction a) auto

lemma join_split: "join [sep] (split sep s) = s"
proof (induction s)
  case Nil
  then show ?case by simp
next
  case (Cons c cs)
  show ?case
  proof (cases "c = sep")
    case True
    obtain p ps where "split sep cs = p # ps"
      using split_not_Nil [of sep cs] by (cases "split sep cs") auto
    with Cons True show ?thesis by simp
  next
    case False
    obtain p ps where e: "split sep cs = p # ps"
      using split_not_Nil [of sep cs] by (cases "split sep cs") auto
    with Cons False show ?thesis by (cases ps) auto
  qed
qed

lemma fill_defined:
  "set (field_names segs) \<subseteq> dom (map_of kw) \<Longrightarrow> \<exists>t. fill kw segs = Inr t"
proof (induction segs)
  case Nil
  then show ?case by simp
next
  case (Cons s segs)
  show ?case
  proof (cases s)
    case (Lit c)
    with Cons obtain t where "fill kw segs = Inr t" by auto
    with Lit show ?thesis by simp
  next
    case (Field name)
    with Cons obtain t where t: "fill kw segs = Inr t" by auto
    from Field Cons.prems obtain v where "map_of kw name = Some v" by auto
    with Field t show ?thesis by simp
  qed
qed


lemma format_defined:
  "template_fields template = Inr names \<Longrightarrow> set names \<subseteq> dom (map_of kw) \<Longrightarrow>
   \<exists>t. format template kw = Inr t"
  by (cases "parse_format None template")
     (auto simp: template_fields_def format_def dest: fill_defined)


lemma json_pipeline_fields:
  "template_fields json_pipeline_template =
     Inr [''extension'', ''realfilename'', ''pg_name'', ''pg_port'', ''pg_user'', ''pg_password'',
          ''schema'', ''tab'', ''srid'', ''scale_x'', ''scale_y'', ''scale_z'', ''offset_x'',
          ''offset_y'', ''offset_z'']"
  by code_simp

lemma index_statements_fields:
  "template_fields index_statements_template = Inr [''table'', ''table'', ''table'', ''table'']"
  by code_simp

lemma json_pipeline_defined:
  "\<exists>t. format json_pipeline_template
          (load_locals py filename table column work_dir server_url extension basename
             json_path cmd q cfg schema tab srid) = Inr t"
proof (rule format_defined [OF json_pipeline_fields])
  obtain sx sy sz ox oy oz where q: "q = ((sx, sy, sz), (ox, oy, oz))"
    by (metis prod.exhaust)
  show "set [''extension'', ''realfilename'', ''pg_name'', ''pg_port'', ''pg_user'', ''pg_password'',
          ''schema'', ''tab'', ''srid'', ''scale_x'', ''scale_y'', ''scale_z'', ''offset_x'',
          ''offset_y'', ''offset_z'']
        \<subseteq> dom (map_of (load_locals py filename table column work_dir server_url extension
             basename json_path cmd q cfg schema tab srid))"
    unfolding q load_locals_def by (simp add: dom_def)
qed

lemma index_statements_defined:
  "\<exists>t. format index_statements_template (a # b #
          load_locals py filename table column work_dir server_url extension basename
             json_path cmd q cfg schema tab srid) = Inr t"
proof (rule format_defined [OF index_statements_fields])
  obtain sx sy sz ox oy oz where q: "q = ((sx, sy, sz), (ox, oy, oz))"
    by (metis prod.exhaust)
  show "set [''table'', ''table'', ''table'', ''table'']
        \<subseteq> dom (map_of (a # b # load_locals py filename table column work_dir server_url
             extension basename json_path cmd q cfg schema tab srid))"
    unfolding q load_locals_def by (cases a; cases b) (simp add: dom_def)
qed

section \<open>Runs of the driver\<close>

lemma load_impl_info_failed:
  assumes "cmd = ''pdal info --summary '' @ path_str (Path w filename)"
    and "check_output w cmd = None"
  shows "load_impl w filename table column work_dir server_url
           = ([CreatePointcloudLopocsTable, CheckOutput cmd], Inl (SystemExit 1))"
  using assms by (simp add: load_impl_def Let_def bind_def emit_def lift_def)

lemma load_impl_split_failed:
  assumes "cmd = ''pdal info --summary '' @ path_str (Path w filename)"
    and "check_output w cmd = Some summary"
    and "split_table (normalize_table table) = Inl e"
  shows "load_impl w filename table column work_dir server_url
           = ([CreatePointcloudLopocsTable, CheckOutput cmd], Inl e)"
  using assms by (simp add: load_impl_def Let_def bind_def emit_def lift_def)

lemma load_impl_success:
  assumes cmd: "cmd = ''pdal info --summary '' @ path_str (Path w filename)"
    and info: "check_output w cmd = Some summary"
    and tab: "split_table (normalize_table table) = Inr (schema, tab)"
    and srid: "proj42epsg (SpatialReference w) (open_lines w) (srs_proj4 summary)
                 ''/usr/share/proj/epsg'' False = (opened, Inr srid)"
    and jp: "json_path = os_path_join (path_resolve (Path w work_dir))
                 (path_stem (Path w filename) @ ''_'' @ table @ ''_pipeline.json'')"
    and call: "check_call w (''pdal pipeline '' @ json_path)"
    and q: "quantization (num w) summary (lower (drop 1 (path_suffix (Path w filename))))
              = ((scale_x, scale_y, scale_z), (offset_x, offset_y, offset_z))"
  shows "\<exists>json_pipeline statements.
    format json_pipeline_template
      (load_locals (num w) (Path w filename) (normalize_table table) column
         (Path w work_dir) server_url (lower (drop 1 (path_suffix (Path w filename))))
         (path_stem (Path w filename)) json_path cmd
         ((scale_x, scale_y, scale_z), (offset_x, offset_y, offset_z)) (app_config w)
         schema tab srid) = Inr json_pipeline \<and>
    load_impl w filename table column work_dir server_url =
      ([CreatePointcloudLopocsTable, CheckOutput cmd] @ map OpenFile opened @
       [WriteFile json_path json_pipeline,
        CheckCall (''pdal pipeline '' @ json_path),
        Execute statements,
        UpdateMetadata (normalize_table table) column srid scale_x scale_y scale_z
          offset_x offset_y offset_z,
        AddOutputSchema (normalize_table table) column
          (num_of_float (num w) ''0.01'') (num_of_float (num w) ''0.01'')
          (num_of_float (num w) ''0.01'') offset_x offset_y offset_z srid (potree_schema w)] @
       fst (load_hierarchies w (normalize_table table) column (Path w work_dir) server_url),
       Inr ())"
proof -
  obtain json_pipeline where j: "format json_pipeline_template
      (load_locals (num w) (Path w filename) (normalize_table table) column
      (Path w work_dir) server_url (lower (drop 1 (path_suffix (Path w filename))))
      (path_stem (Path w filename)) json_path cmd
      ((scale_x, scale_y, scale_z), (offset_x, offset_y, offset_z)) (app_config w) schema tab srid) = Inr json_pipeline"
    using json_pipeline_defined by blast
  obtain statements where s: "format index_statements_template
      ((''cmd'', ''pdal pipeline '' @ json_path) # (''json_pipeline'', json_pipeline) #
       (load_locals (num w) (Path w filename) (normalize_table table) column
      (Path w work_dir) server_url (lower (drop 1 (path_suffix (Path w filename))))
      (path_stem (Path w filename)) json_path cmd
      ((scale_x, scale_y, scale_z), (offset_x, offset_y, offset_z)) (app_config w) schema tab srid))
        = Inr statements"
    using index_statements_defined by blast
  have "load_impl w filename table column work_dir server_url =
      ([CreatePointcloudLopocsTable, CheckOutput cmd] @ map OpenFile opened @
       [WriteFile json_path json_pipeline,
        CheckCall (''pdal pipeline '' @ json_path),
        Execute statements,
        UpdateMetadata (normalize_table table) column srid scale_x scale_y scale_z
          offset_x offset_y offset_z,
        AddOutputSchema (normalize_table table) column
          (num_of_float (num w) ''0.01'') (num_of_float (num w) ''0.01'')
          (num_of_float (num w) ''0.01'') offset_x offset_y offset_z srid (potree_schema w)] @
       fst (load_hierarchies w (normalize_table table) column (Path w work_dir) server_url),
       Inr ())"
    using info tab srid call q j s
    unfolding load_impl_def Let_def cmd [symmetric] jp [symmetric]
    by (simp add: bind_def emit_def lift_def load_hierarchies_def Let_def)
  with j show ?thesis by blast
qed

section \<open>The table name\<close>

lemma split_table_no_separator:
  "count_list table CHR ''.'' = 0 \<Longrightarrow>
   normalize_table table = ''public.'' @ table \<and>
   split_table (normalize_table table) = Inr (''public'', table)"
proof -
  assume "count_list table CHR ''.'' = 0"
  then have n: "CHR ''.'' \<notin> set table" by (simp add: count_list_0_iff)
  have "split CHR ''.'' (''public'' @ CHR ''.'' # table) = ''public'' # split CHR ''.'' table"
    by (rule split_append_sep) simp
  with n have "split CHR ''.'' (''public.'' @ table) = [''public'', table]"
    by (simp add: split_no_sep)
  with n show ?thesis by (simp add: normalize_table_def split_table_def)
qed

lemma split_table_one_separator:
  "count_list table CHR ''.'' = 1 \<Longrightarrow>
   normalize_table table = table \<and>
   (\<exists>schema tab. split_table (normalize_table table) = Inr (schema, tab) \<and>
      table = schema @ ''.'' @ tab)"
proof -
  assume c: "count_list table CHR ''.'' = 1"
  then have "count_list table CHR ''.'' \<noteq> 0" by simp
  then have n: "CHR ''.'' \<in> set table" by (simp add: count_list_0_iff)
  have "length (split CHR ''.'' table) = 2" using c by (simp add: length_split)
  then obtain a b where s: "split CHR ''.'' table = [a, b]"
    by (cases "split CHR ''.'' table" rule: list.exhaust)
       (auto simp: length_Suc_conv)
  have "join ''.'' (split CHR ''.'' table) = table" by (rule join_split)
  with s have "table = a @ ''.'' @ b" by simp
  with n s show ?thesis by (auto simp: normalize_table_def split_table_def)
qed

lemma split_table_more_separators:
  "1 < count_list table CHR ''.'' \<Longrightarrow> split_table (normalize_table table) = Inl ValueError"
proof -
  assume c: "1 < count_list table CHR ''.''"
  then have "count_list table CHR ''.'' \<noteq> 0" by simp
  then have n: "CHR ''.'' \<in> set table" by (simp add: count_list_0_iff)
  have "length (split CHR ''.'' table) \<noteq> 2" using c by (simp add: length_split)
  then have "split_table table = Inl ValueError"
    by (auto simp: split_table_def split: list.splits)
  with n show ?thesis by (simp add: normalize_table_def)
qed

text \<open>
  C1, as amended.  A table name without a separator is prefixed with \<open>public.\<close> and
  splits into \<open>public\<close> and the name; a name with exactly one separator is used
  unchanged and splits into its schema and its table.  A name with more than one
  separator is not refused before the external tool runs: when \<^verbatim>\<open>pdal info\<close>
  succeeds, the run has created the metadata table and called \<^verbatim>\<open>pdal info\<close>, and
  then ends with the \<^verbatim>\<open>ValueError\<close> of the tuple unpacking, before the SRID is
  resolved, the pipeline description written or \<^verbatim>\<open>pdal pipeline\<close> called.
\<close>

theorem table_name_normalization:
  "(count_list table CHR ''.'' = 0 \<longrightarrow>
      normalize_table table = ''public.'' @ table \<and>
      split_table (normalize_table table) = Inr (''public'', table)) \<and>
   (count_list table CHR ''.'' = 1 \<longrightarrow>
      normalize_table table = table \<and>
      (\<exists>schema tab. split_table (normalize_table table) = Inr (schema, tab) \<and>
         table = schema @ ''.'' @ tab)) \<and>
   (1 < count_list table CHR ''.'' \<and>
    check_output w (''pdal info --summary '' @ path_str (Path w filename)) = Some summary \<longrightarrow>
      load_impl w filename table column work_dir server_url =
        ([CreatePointcloudLopocsTable,
          CheckOutput (''pdal info --summary '' @ path_str (Path w filename))],
         Inl ValueError))"
  using split_table_no_separator [of table] split_table_one_separator [of table]
    split_table_more_separators [of table]
    load_impl_split_failed [of "''pdal info --summary '' @ path_str (Path w filename)" w filename
      summary table ValueError column work_dir server_url]
  by blast

lemma sample_info:
  "check_output sample_world (''pdal info --summary '' @ path_str (Path sample_world ''cloud.las''))
     = Some sample_summary"
  by (simp add: sample_world_def sample_path_def)

theorem table_name_normalization_witness:
  "normalize_table ''foo'' = ''public.foo'' \<and>
   split_table (normalize_table ''foo'') = Inr (''public'', ''foo'') \<and>
   normalize_table ''myschema.foo'' = ''myschema.foo'' \<and>
   (\<exists>schema tab. split_table (normalize_table ''myschema.foo'') = Inr (schema, tab) \<and>
      ''myschema.foo'' = schema @ ''.'' @ tab) \<and>
   load_impl sample_world ''cloud.las'' ''a.b.c'' ''points'' ''/tmp/work'' ''http://localhost:5000'' =
     ([CreatePointcloudLopocsTable,
       CheckOutput (''pdal info --summary '' @ path_str (Path sample_world ''cloud.las''))],
      Inl ValueError)"
proof -
  have c0: "count_list ''foo'' CHR ''.'' = 0" by simp
  have c1: "count_list ''myschema.foo'' CHR ''.'' = 1" by simp
  have c2: "1 < count_list ''a.b.c'' CHR ''.''" by simp
  from table_name_normalization [of "''foo''" sample_world "''cloud.las''" sample_summary] c0
  have a0: "normalize_table ''foo'' = ''public.'' @ ''foo''"
    and a2: "split_table (normalize_table ''foo'') = Inr (''public'', ''foo'')" by blast+
  have e: "''public.'' @ ''foo'' = ''public.foo''" by simp
  have a1: "normalize_table ''foo'' = ''public.foo''" by (simp only: a0 e)
  from table_name_normalization [of "''myschema.foo''" sample_world "''cloud.las''" sample_summary] c1
  have b: "normalize_table ''myschema.foo'' = ''myschema.foo'' \<and>
      (\<exists>schema tab. split_table (normalize_table ''myschema.foo'') = Inr (schema, tab) \<and>
         ''myschema.foo'' = schema @ ''.'' @ tab)" by blast
  from table_name_normalization [of "''a.b.c''" sample_world "''cloud.las''" sample_summary
      "''points''" "''/tmp/work''" "''http://localhost:5000''"] c2 sample_info
  have c: "load_impl sample_world ''cloud.las'' ''a.b.c'' ''points'' ''/tmp/work''
        ''http://localhost:5000'' =
     ([CreatePointcloudLopocsTable,
       CheckOutput (''pdal info --summary '' @ path_str (Path sample_world ''cloud.las''))],
      Inl ValueError)" by blast
  from a1 a2 b c show ?thesis by blast
qed

text \<open>
  The claim as the specification states it fails on the table name \<open>a.b.c\<close>: the run
  ends with \<^verbatim>\<open>ValueError\<close>, not with \<open>ConfigError\<close>, and a subprocess has run
  before it ends.
\<close>

theorem table_name_counterexample:
  "load_impl sample_world ''cloud.las'' ''a.b.c'' ''points'' ''/tmp/work'' ''http://localhost:5000''
     = ([CreatePointcloudLopocsTable, CheckOutput ''pdal info --summary cloud.las''],
        Inl ValueError) \<and>
   snd (load_impl sample_world ''cloud.las'' ''a.b.c'' ''points'' ''/tmp/work''
          ''http://localhost:5000'') \<noteq> Inl ConfigError \<and>
   list_ex is_external_tool
     (fst (load_impl sample_world ''cloud.las'' ''a.b.c'' ''points'' ''/tmp/work''
             ''http://localhost:5000''))"
proof -
  have p: "path_str (Path sample_world ''cloud.las'') = ''cloud.las''"
    by (simp add: sample_world_def sample_path_def)
  have s: "split_table (normalize_table ''a.b.c'') = Inl ValueError"
    by (simp add: normalize_table_def split_table_def)
  have "load_impl sample_world ''cloud.las'' ''a.b.c'' ''points'' ''/tmp/work''
          ''http://localhost:5000''
     = ([CreatePointcloudLopocsTable, CheckOutput ''pdal info --summary cloud.las''],
        Inl ValueError)"
    using load_impl_split_failed [of "''pdal info --summary cloud.las''" sample_world "''cloud.las''"
        sample_summary "''a.b.c''" ValueError "''points''" "''/tmp/work''" "''http://localhost:5000''"]
      sample_info p s by simp
  then show ?thesis by simp
qed

section \<open>The pipeline description\<close>


lemma lower_E57: "lower (drop 1 ''.E57'') = ''e57''"
  by code_simp

lemma lower_las: "lower (drop 1 ''.las'') = ''las''"
  by code_simp

lemma sample_srid:
  "proj42epsg sample_osr sample_files ''+proj=lcc'' ''/usr/share/proj/epsg'' False
     = ([''/usr/share/proj/epsg''], Inr ''27572'')"
  by (simp add: proj42epsg_def sample_osr_def sample_reference_def sample_files_def
      str_find_def re_match_def isdigit_def)



section \<open>Metadata and the column\<close>

text \<open>
  C8.  In a run where \<^verbatim>\<open>pdal info\<close> and \<^verbatim>\<open>pdal pipeline\<close> succeed and the table
  name and the SRID resolve, the driver, after the pipeline has executed and the index
  statements are issued, calls \<^verbatim>\<open>update_metadata\<close> with the table, the column, the
  SRID and the scales and offsets of the ingestion, and next \<^verbatim>\<open>add_output_schema\<close>
  with the same table, column, offsets and SRID but the literal scale \<open>0.01\<close> on all
  three axes, whatever the ingestion scales are; the run then returns normally.
\<close>

theorem load_persists_metadata:
  assumes "cmd = ''pdal info --summary '' @ path_str (Path w filename)"
    and "check_output w cmd = Some summary"
    and "split_table (normalize_table table) = Inr (schema, tab)"
    and "proj42epsg (SpatialReference w) (open_lines w) (srs_proj4 summary)
           ''/usr/share/proj/epsg'' False = (opened, Inr srid)"
    and "json_path = os_path_join (path_resolve (Path w work_dir))
           (path_stem (Path w filename) @ ''_'' @ table @ ''_pipeline.json'')"
    and "check_call w (''pdal pipeline '' @ json_path)"
    and "quantization (num w) summary (lower (drop 1 (path_suffix (Path w filename))))
           = ((scale_x, scale_y, scale_z), (offset_x, offset_y, offset_z))"
  shows "\<exists>before statements after.
    fst (load_impl w filename table column work_dir server_url) =
      before @
      [CheckCall (''pdal pipeline '' @ json_path),
       Execute statements,
       UpdateMetadata (normalize_table table) column srid scale_x scale_y scale_z
         offset_x offset_y offset_z,
       AddOutputSchema (normalize_table table) column
         (num_of_float (num w) ''0.01'') (num_of_float (num w) ''0.01'')
         (num_of_float (num w) ''0.01'') offset_x offset_y offset_z srid (potree_schema w)] @
      after \<and>
    snd (load_impl w filename table column work_dir server_url) = Inr ()"
proof -
  from load_impl_success [OF assms, of column server_url]
  obtain json_pipeline statements where
    run: "load_impl w filename table column work_dir server_url =
      ([CreatePointcloudLopocsTable, CheckOutput cmd] @ map OpenFile opened @
       [WriteFile json_path json_pipeline,
        CheckCall (''pdal pipeline '' @ json_path),
        Execute statements,
        UpdateMetadata (normalize_table table) column srid scale_x scale_y scale_z
          offset_x offset_y offset_z,
        AddOutputSchema (normalize_table table) column
          (num_of_float (num w) ''0.01'') (num_of_float (num w) ''0.01'')
          (num_of_float (num w) ''0.01'') offset_x offset_y offset_z srid (potree_schema w)] @
       fst (load_hierarchies w (normalize_table table) column (Path w work_dir) server_url),
       Inr ())"
    by blast
  let ?before = "[CreatePointcloudLopocsTable, CheckOutput cmd] @ map OpenFile opened @
       [WriteFile json_path json_pipeline]"
  let ?after = "fst (load_hierarchies w (normalize_table table) column (Path w work_dir) server_url)"
  have "fst (load_impl w filename table column work_dir server_url) =
      ?before @
      [CheckCall (''pdal pipeline '' @ json_path),
       Execute statements,
       UpdateMetadata (normalize_table table) column srid scale_x scale_y scale_z
         offset_x offset_y offset_z,
       AddOutputSchema (normalize_table table) column
         (num_of_float (num w) ''0.01'') (num_of_float (num w) ''0.01'')
         (num_of_float (num w) ''0.01'') offset_x offset_y offset_z srid (potree_schema w)] @
      ?after"
    by (simp add: run)
  moreover have "snd (load_impl w filename table column work_dir server_url) = Inr ()"
    by (simp add: run)
  ultimately show ?thesis by blast
qed

lemma sample_scan_facts:
  "''pdal info --summary scan.E57'' = ''pdal info --summary '' @ path_str (Path sample_world ''scan.E57'')"
  "check_output sample_world ''pdal info --summary scan.E57'' = Some sample_summary"
  "''/tmp/work/scan_pts_pipeline.json'' =
     os_path_join (path_resolve (Path sample_world ''/tmp/work''))
       (path_stem (Path sample_world ''scan.E57'') @ ''_'' @ ''pts'' @ ''_pipeline.json'')"
  "check_call sample_world (''pdal pipeline '' @ ''/tmp/work/scan_pts_pipeline.json'')"
  by (simp_all add: sample_world_def sample_path_def os_path_join_def)

lemma sample_scan_table: "split_table (normalize_table ''pts'') = Inr (''public'', ''pts'')"
  by (simp add: normalize_table_def split_table_def)

lemma sample_scan_srid:
  "proj42epsg (SpatialReference sample_world) (open_lines sample_world)
     (srs_proj4 sample_summary) ''/usr/share/proj/epsg'' False
     = ([''/usr/share/proj/epsg''], Inr ''27572'')"
  using sample_srid by (simp add: sample_world_def sample_summary_def)

lemma sample_scan_quantization:
  "quantization (num sample_world) sample_summary
     (lower (drop 1 (path_suffix (Path sample_world ''scan.E57''))))
     = ((1, 1, 1), (0, 0, 0))"
proof -
  have "path_suffix (Path sample_world ''scan.E57'') = ''.E57''"
    by (simp add: sample_world_def sample_path_def)
  then have "lower (drop 1 (path_suffix (Path sample_world ''scan.E57''))) = ''e57''"
    using lower_E57 by simp
  then show ?thesis
    by (simp add: quantization_def Let_def sample_world_def exact_num_def)
qed

lemma sample_world_constants:
  "normalize_table ''pts'' = ''public.pts''"
  "num_of_float (num sample_world) ''0.01'' = 1 / 100"
  "potree_schema sample_world = ''potree''"
  by (simp_all add: normalize_table_def sample_world_def exact_num_def)

theorem load_persists_metadata_witness:
  "\<exists>before statements after.
    fst (load_impl sample_world ''scan.E57'' ''pts'' ''cloud'' ''/tmp/work''
           ''http://localhost:5000'') =
      before @
      [CheckCall (''pdal pipeline '' @ ''/tmp/work/scan_pts_pipeline.json''),
       Execute statements,
       UpdateMetadata ''public.pts'' ''cloud'' ''27572'' 1 1 1 0 0 0,
       AddOutputSchema ''public.pts'' ''cloud'' (1 / 100) (1 / 100) (1 / 100) 0 0 0
         ''27572'' ''potree''] @
      after \<and>
    snd (load_impl sample_world ''scan.E57'' ''pts'' ''cloud'' ''/tmp/work''
           ''http://localhost:5000'') = Inr ()"
  using load_persists_metadata [OF sample_scan_facts(1) sample_scan_facts(2) sample_scan_table
      sample_scan_srid sample_scan_facts(3) sample_scan_facts(4) sample_scan_quantization,
      of "''cloud''" "''http://localhost:5000''"]
  unfolding sample_world_constants .



section \<open>The name of the cache file\<close>

lemma str_nat_value: "foldl (\<lambda>a c. 10 * a + (of_char c - 48)) (0 :: nat) (str_nat n) = n"
proof (induction n rule: str_nat.induct)
  case (1 n)
  show ?case
  proof (cases "n < 10")
    case True
    then have "str_nat n = [char_of (48 + n)]" by (subst str_nat.simps) simp
    with True show ?thesis by simp
  next
    case False
    then have e: "str_nat n = str_nat (n div 10) @ [char_of (48 + n mod 10)]"
      by (subst str_nat.simps) simp
    have "48 + n mod 10 < 256" by simp
    then have "(48 + n mod 10) mod 256 = 48 + n mod 10" by simp
    with e 1 [OF False] show ?thesis by simp
  qed
qed

lemma inj_str_nat: "inj str_nat"
proof (rule injI)
  fix a b :: nat
  assume "str_nat a = str_nat b"
  then have "foldl (\<lambda>a c. 10 * a + (of_char c - 48)) (0 :: nat) (str_nat a)
      = foldl (\<lambda>a c. 10 * a + (of_char c - 48)) (0 :: nat) (str_nat b)" by simp
  then show "a = b" by (simp only: str_nat_value)
qed

text \<open>
  C9.  The name of the cache file is a function of the table, the column, the two
  bounds of the level of detail and the six scalars of the bounding box (and of how
  numbers print), so equal inputs give equal names; \<^verbatim>\<open>_load\<close> hands
  \<^verbatim>\<open>write_in_cache\<close> the name made from the session's table, column and bounding
  box with the bounds 0 and 5.  When distinct numbers print differently, replacing any
  one of the six scalars by a different one, the rest unchanged, changes the name.
\<close>

theorem cache_file_changes_with_bbox:
  assumes "inj (num_str py)"
  shows
   "(v \<noteq> xmin b \<longrightarrow>
       cache_file py table column lod_min lod_max (bbox_list (b \<lparr> xmin := v \<rparr>))
         \<noteq> cache_file py table column lod_min lod_max (bbox_list b)) \<and>
    (v \<noteq> ymin b \<longrightarrow>
       cache_file py table column lod_min lod_max (bbox_list (b \<lparr> ymin := v \<rparr>))
         \<noteq> cache_file py table column lod_min lod_max (bbox_list b)) \<and>
    (v \<noteq> zmin b \<longrightarrow>
       cache_file py table column lod_min lod_max (bbox_list (b \<lparr> zmin := v \<rparr>))
         \<noteq> cache_file py table column lod_min lod_max (bbox_list b)) \<and>
    (v \<noteq> xmax b \<longrightarrow>
       cache_file py table column lod_min lod_max (bbox_list (b \<lparr> xmax := v \<rparr>))
         \<noteq> cache_file py table column lod_min lod_max (bbox_list b)) \<and>
    (v \<noteq> ymax b \<longrightarrow>
       cache_file py table column lod_min lod_max (bbox_list (b \<lparr> ymax := v \<rparr>))
         \<noteq> cache_file py table column lod_min lod_max (bbox_list b)) \<and>
    (v \<noteq> zmax b \<longrightarrow>
       cache_file py table column lod_min lod_max (bbox_list (b \<lparr> zmax := v \<rparr>))
         \<noteq> cache_file py table column lod_min lod_max (bbox_list b)) \<and>
    (let lpsession = Session w table column;
         bbox = bbox_list (session_boundingbox lpsession)
     in WriteInCache (greyhound_build_hierarchy_from_pg w lpsession 0 5 bbox)
          (cache_file (num w) (session_table lpsession) (session_column lpsession) 0 5 bbox)
        \<in> set (fst (load_hierarchies w table column work_dir server_url)))"
proof -
  have e: "\<And>x y. num_str py x = num_str py y \<longleftrightarrow> x = y"
    using assms by (simp add: inj_eq)
  show ?thesis
    by (simp add: cache_file_def bbox_list_def load_hierarchies_def Let_def e)
qed

theorem cache_file_changes_with_bbox_witness:
  "cache_file nat_num ''public.pts'' ''points'' 0 5
     (bbox_list \<lparr> xmin = 7, ymin = 0, zmin = 0, xmax = 10, ymax = 20, zmax = 5 \<rparr>)
   \<noteq> cache_file nat_num ''public.pts'' ''points'' 0 5
     (bbox_list \<lparr> xmin = 0, ymin = 0, zmin = 0, xmax = 10, ymax = 20, zmax = 5 \<rparr>) \<and>
   cache_file nat_num ''public.pts'' ''points'' 0 5
     (bbox_list \<lparr> xmin = 0, ymin = 0, zmin = 0, xmax = 10, ymax = 20, zmax = 7 \<rparr>)
   \<noteq> cache_file nat_num ''public.pts'' ''points'' 0 5
     (bbox_list \<lparr> xmin = 0, ymin = 0, zmin = 0, xmax = 10, ymax = 20, zmax = 5 \<rparr>)"
proof -
  have i: "inj (num_str nat_num)" by (simp add: nat_num_def inj_str_nat)
  let ?b = "\<lparr> xmin = 0 :: nat, ymin = 0, zmin = 0, xmax = 10, ymax = 20, zmax = 5 \<rparr>"
  have v: "(7 :: nat) \<noteq> xmin ?b" "(7 :: nat) \<noteq> zmax ?b" by simp_all
  from cache_file_changes_with_bbox [OF i, of 7 ?b "''public.pts''" "''points''" 0 5] v
  have "cache_file nat_num ''public.pts'' ''points'' 0 5 (bbox_list (?b \<lparr> xmin := 7 \<rparr>))
      \<noteq> cache_file nat_num ''public.pts'' ''points'' 0 5 (bbox_list ?b)"
    and "cache_file nat_num ''public.pts'' ''points'' 0 5 (bbox_list (?b \<lparr> zmax := 7 \<rparr>))
      \<noteq> cache_file nat_num ''public.pts'' ''points'' 0 5 (bbox_list ?b)"
    by blast+
  then show ?thesis by simp
qed

lemma cache_file_sample:
  "cache_file nat_num ''public.pts'' ''points'' 0 5
     (bbox_list \<lparr> xmin = 0, ymin = 0, zmin = 0, xmax = 10, ymax = 20, zmax = 5 \<rparr>)
   = ''public.pts_points_0_5_0_0_0_10_20_5.hcy''"
  by code_simp

end
